theory Spec2Isabelle
  imports Main
begin

section \<open>The dataset directory tree and \<open>os.path\<close>\<close>

text \<open>
  The script \<^verbatim>\<open>larq_bnn.py\<close> reads a directory tree of audio files. A path names either
  nothing, a regular file, or a directory with the names it holds (in the order
  \<^verbatim>\<open>os.listdir\<close> returns them). A directory can exist and still refuse to be listed (no
  read permission): \<^verbatim>\<open>os.path.exists\<close> and \<^verbatim>\<open>os.path.isdir\<close> hold of it, and
  \<^verbatim>\<open>os.listdir\<close> raises \<^verbatim>\<open>PermissionError\<close>. Strings are byte strings; the only string tests
  the script makes are on the ASCII texts \<^verbatim>\<open>/\<close> and \<^verbatim>\<open>.wav\<close>.
\<close>

datatype node = File | Dir "string list" | UnreadableDir "string list"

type_synonym filesystem = "string \<Rightarrow> node option"

text \<open>The exceptions a run of the script can end with.\<close>

datatype library_call =
  TrainTestSplitCall | ReadFileCall | DecodeWavCall | KerasModelCall | FitCall | SaveCall

datatype error =
    FileNotFoundError
  | NotADirectoryError
  | PermissionError
  | InvalidArgumentError
  | NoSamplesValueError   \<comment> \<open>the \<^verbatim>\<open>ValueError("Nessun campione trovato. ...")\<close> of line 57\<close>
  | LibraryError library_call

definition os_path_exists :: "filesystem \<Rightarrow> string \<Rightarrow> bool" where
  "os_path_exists fs p = (case fs p of None \<Rightarrow> False | Some n \<Rightarrow> True)"

definition os_path_isdir :: "filesystem \<Rightarrow> string \<Rightarrow> bool" where
  "os_path_isdir fs p =
     (case fs p of
        Some (Dir names) \<Rightarrow> True
      | Some (UnreadableDir names) \<Rightarrow> True
      | _ \<Rightarrow> False)"

text \<open>
  \<^verbatim>\<open>os.listdir\<close> raises on a path that is missing, is not a directory, or is a directory
  that cannot be read.
\<close>

definition os_listdir :: "filesystem \<Rightarrow> string \<Rightarrow> error + string list" where
  "os_listdir fs p =
     (case fs p of
        None \<Rightarrow> Inl FileNotFoundError
      | Some File \<Rightarrow> Inl NotADirectoryError
      | Some (Dir names) \<Rightarrow> Inr names
      | Some (UnreadableDir names) \<Rightarrow> Inl PermissionError)"

text \<open>The names a directory holds, whether or not it can be listed.\<close>

definition directory_entries :: "filesystem \<Rightarrow> string \<Rightarrow> string list" where
  "directory_entries fs p =
     (case fs p of
        Some (Dir names) \<Rightarrow> names
      | Some (UnreadableDir names) \<Rightarrow> names
      | _ \<Rightarrow> [])"

definition startswith :: "string \<Rightarrow> string \<Rightarrow> bool" where
  "startswith s pre = (take (length pre) s = pre)"

definition endswith :: "string \<Rightarrow> string \<Rightarrow> bool" where
  "endswith s suf = (length suf \<le> length s \<and> drop (length s - length suf) s = suf)"

text \<open>
  \<^verbatim>\<open>os.path.join(a, b)\<close> of \<^verbatim>\<open>posixpath\<close>, for two components: an absolute \<open>b\<close> replaces
  \<open>a\<close>; otherwise \<open>b\<close> is appended, after a separator unless \<open>a\<close> is empty or already ends
  with one.
\<close>

definition os_path_join :: "string \<Rightarrow> string \<Rightarrow> string" where
  "os_path_join a b =
     (if startswith b ''/'' then b
      else if a = [] \<or> endswith a ''/'' then a @ b
      else a @ ''/'' @ b)"

section \<open>\<open>load_audio_files\<close>\<close>

text \<open>
  The two warnings \<^verbatim>\<open>load_audio_files\<close> prints, each with the command it names:
  \<^verbatim>\<open>Attenzione: la directory per il comando '{command}' e' vuota.\<close> and
  \<^verbatim>\<open>Attenzione: il comando '{command}' non esiste nel dataset.\<close>
\<close>

datatype message = WarnEmpty string | WarnMissing string

text \<open>
  The state of the scan: the lists \<^verbatim>\<open>audio_paths\<close> and \<^verbatim>\<open>labels\<close>, and the lines printed
  so far.
\<close>

type_synonym scan_state = "string list \<times> nat list \<times> message list"

text \<open>The inner loop \<^verbatim>\<open>for file in wav_files\<close>: two appends per file.\<close>

fun append_files :: "string \<Rightarrow> nat \<Rightarrow> string list \<Rightarrow> string list \<times> nat list \<Rightarrow> string list \<times> nat list" where
  "append_files command_path label [] (audio_paths, labels) = (audio_paths, labels)"
| "append_files command_path label (file # files) (audio_paths, labels) =
     append_files command_path label files
       (audio_paths @ [os_path_join command_path file], labels @ [label])"

text \<open>One iteration of \<^verbatim>\<open>for label, command in enumerate(commands)\<close>.\<close>

definition load_step :: "filesystem \<Rightarrow> string \<Rightarrow> nat \<times> string \<Rightarrow> scan_state \<Rightarrow> error + scan_state" where
  "load_step fs dataset_path lc st =
     (case lc of (label, command) \<Rightarrow>
      case st of (audio_paths, labels, out) \<Rightarrow>
        let command_path = os_path_join dataset_path command in
        if os_path_exists fs command_path \<and> os_path_isdir fs command_path then
          (case os_listdir fs command_path of
             Inl e \<Rightarrow> Inl e
           | Inr names \<Rightarrow>
               let wav_files = filter (\<lambda>f. endswith f ''.wav'') names;
                   out' = (if length wav_files = 0 then out @ [WarnEmpty command] else out);
                   (audio_paths', labels') =
                      append_files command_path label wav_files (audio_paths, labels)
               in Inr (audio_paths', labels', out'))
        else Inr (audio_paths, labels, out @ [WarnMissing command]))"

fun load_loop :: "filesystem \<Rightarrow> string \<Rightarrow> (nat \<times> string) list \<Rightarrow> scan_state \<Rightarrow> error + scan_state" where
  "load_loop fs dataset_path [] st = Inr st"
| "load_loop fs dataset_path (lc # rest) st =
     (case load_step fs dataset_path lc st of
        Inl e \<Rightarrow> Inl e
      | Inr st' \<Rightarrow> load_loop fs dataset_path rest st')"

definition load_audio_files :: "filesystem \<Rightarrow> string list \<Rightarrow> string \<Rightarrow> error + scan_state" where
  "load_audio_files fs commands dataset_path =
     load_loop fs dataset_path (enumerate 0 commands) ([], [], [])"

subsection \<open>What the scan is expected to return\<close>

text \<open>
  The description of the result in the specification's words: the names ending in
  \<^verbatim>\<open>.wav\<close> of a directory that exists and is listed (none for anything else), each paired with the
  position of its command, command after command.
\<close>

definition wav_files_of :: "filesystem \<Rightarrow> string \<Rightarrow> string list" where
  "wav_files_of fs command_path =
     (case fs command_path of
        Some (Dir names) \<Rightarrow> filter (\<lambda>f. endswith f ''.wav'') names
      | _ \<Rightarrow> [])"

definition command_entries :: "filesystem \<Rightarrow> string \<Rightarrow> nat \<Rightarrow> string \<Rightarrow> (string \<times> nat) list" where
  "command_entries fs dataset_path label command =
     map (\<lambda>file. (os_path_join (os_path_join dataset_path command) file, label))
         (wav_files_of fs (os_path_join dataset_path command))"

definition expected_pairs :: "filesystem \<Rightarrow> string list \<Rightarrow> string \<Rightarrow> (string \<times> nat) list" where
  "expected_pairs fs commands dataset_path =
     concat (map (\<lambda>(label, command). command_entries fs dataset_path label command)
                 (enumerate 0 commands))"

text \<open>The warning a command earns: none when its directory holds a \<^verbatim>\<open>.wav\<close> name.\<close>

definition command_warning :: "filesystem \<Rightarrow> string \<Rightarrow> string \<Rightarrow> message list" where
  "command_warning fs dataset_path command =
     (case fs (os_path_join dataset_path command) of
        Some (Dir names) \<Rightarrow>
          (if filter (\<lambda>f. endswith f ''.wav'') names = [] then [WarnEmpty command] else [])
      | _ \<Rightarrow> [WarnMissing command])"

text \<open>The same, for any stretch of the enumeration.\<close>

definition entries_of :: "filesystem \<Rightarrow> string \<Rightarrow> (nat \<times> string) list \<Rightarrow> (string \<times> nat) list" where
  "entries_of fs dp lcs = concat (map (\<lambda>(label, command). command_entries fs dp label command) lcs)"

definition warnings_of :: "filesystem \<Rightarrow> string \<Rightarrow> (nat \<times> string) list \<Rightarrow> message list" where
  "warnings_of fs dp lcs = concat (map (\<lambda>(label, command). command_warning fs dp command) lcs)"

section \<open>\<open>paths_to_spectrograms\<close>\<close>

text \<open>
  The numerical kernels belong to TensorFlow and are parameters here: the sample type
  \<open>'a\<close> stands for \<^verbatim>\<open>float32\<close> (all the script needs of it is its zero), \<open>'c\<close> for
  \<^verbatim>\<open>complex64\<close>. What is modelled is the structure the script fixes: which slices are
  taken, how many values there are and in which shape.

  A decoded file is the \<^verbatim>\<open>[samples, channels]\<close> tensor of \<^verbatim>\<open>tf.audio.decode_wav\<close>, kept
  as its channel count and its values.
\<close>

record 'a wav =
  channels :: nat
  samples :: "'a list"

text \<open>A tensor of rank two or more: its shape and its values in row-major order.\<close>

record 'a tensor =
  shape :: "nat list"
  data :: "'a list"

text \<open>A one-dimensional tensor is a list; \<^verbatim>\<open>tf.shape\<close> of it is its length.\<close>

definition tf_squeeze_last :: "'a wav \<Rightarrow> error + 'a list" where
  \<comment> \<open>\<^verbatim>\<open>tf.squeeze(audio, axis=-1)\<close>: the last dimension must be 1\<close>
  "tf_squeeze_last w = (if channels w = 1 then Inr (samples w) else Inl InvalidArgumentError)"

definition tf_zeros :: "int \<Rightarrow> error + ('a::zero) list" where
  \<comment> \<open>\<^verbatim>\<open>tf.zeros([n])\<close>: a negative dimension is refused\<close>
  "tf_zeros n = (if n < 0 then Inl InvalidArgumentError else Inr (replicate (nat n) 0))"

text \<open>
  Lines 79 to 81, \<^verbatim>\<open># Pad o trunca l'audio a 1 secondo (16000 campioni)\<close>:
  \<^verbatim>\<open>audio = audio[:16000]\<close>,
  \<^verbatim>\<open>zero_padding = tf.zeros([16000] - tf.shape(audio), dtype=tf.float32)\<close>,
  \<^verbatim>\<open>audio = tf.concat([audio, zero_padding], 0)\<close>.
\<close>

definition pad_or_truncate :: "('a::zero) list \<Rightarrow> error + 'a list" where
  "pad_or_truncate audio0 =
     (let audio = take 16000 audio0 in
      case tf_zeros (16000 - int (length audio)) of
        Inl e \<Rightarrow> Inl e
      | Inr zero_padding \<Rightarrow> Inr (audio @ zero_padding))"

text \<open>
  \<^verbatim>\<open>tf.signal.stft(audio, frame_length=255, frame_step=128)\<close>, by TensorFlow's
  documentation: \<^verbatim>\<open>fft_length\<close> defaults to the smallest power of two that encloses
  \<^verbatim>\<open>frame_length\<close>; the signal is cut into the frames that fit entirely
  (\<^verbatim>\<open>pad_end=False\<close>); each windowed frame yields \<^verbatim>\<open>fft_length // 2 + 1\<close> bins.
\<close>

function enclosing_power_of_two_from :: "nat \<Rightarrow> nat \<Rightarrow> nat" where
  "enclosing_power_of_two_from p v =
     (if p = 0 \<or> v \<le> p then p else enclosing_power_of_two_from (2 * p) v)"
  by pat_completeness auto
termination
  by (relation "measure (\<lambda>(p, v). v - p)") auto

definition enclosing_power_of_two :: "nat \<Rightarrow> nat" where
  "enclosing_power_of_two v = enclosing_power_of_two_from 1 v"

definition num_frames :: "nat \<Rightarrow> nat \<Rightarrow> nat \<Rightarrow> nat" where
  "num_frames n frame_length frame_step =
     (if n < frame_length then 0 else 1 + (n - frame_length) div frame_step)"

definition tf_signal_frame :: "'a list \<Rightarrow> nat \<Rightarrow> nat \<Rightarrow> 'a list list" where
  "tf_signal_frame signal frame_length frame_step =
     map (\<lambda>i. take frame_length (drop (i * frame_step) signal))
         [0..<num_frames (length signal) frame_length frame_step]"

text \<open>
  \<open>rfft_bin fft_length frame k\<close> is bin \<open>k\<close> of the real FFT of length \<open>fft_length\<close> of the
  Hann-windowed frame.
\<close>

definition tf_signal_stft :: "(nat \<Rightarrow> 'a list \<Rightarrow> nat \<Rightarrow> 'c) \<Rightarrow> 'a list \<Rightarrow> nat \<Rightarrow> nat \<Rightarrow> 'c tensor" where
  "tf_signal_stft rfft_bin signal frame_length frame_step =
     (let fft_length = enclosing_power_of_two frame_length;
          frames = tf_signal_frame signal frame_length frame_step;
          bins = fft_length div 2 + 1
      in \<lparr>shape = [length frames, bins],
          data = concat (map (\<lambda>frame. map (rfft_bin fft_length frame) [0..<bins]) frames)\<rparr>)"

definition tf_abs :: "('c \<Rightarrow> 'a) \<Rightarrow> 'c tensor \<Rightarrow> 'a tensor" where
  "tf_abs modulus t = \<lparr>shape = shape t, data = map modulus (data t)\<rparr>"

definition tf_expand_dims_last :: "'a tensor \<Rightarrow> 'a tensor" where
  \<comment> \<open>\<^verbatim>\<open>tf.expand_dims(spectrogram, -1)\<close>\<close>
  "tf_expand_dims_last t = \<lparr>shape = shape t @ [1], data = data t\<rparr>"

text \<open>
  \<^verbatim>\<open>tf.stack\<close> of a list of tensors: a new leading dimension; the shapes must agree.
  Of the empty list it is the empty tensor of shape \<open>[0]\<close>.
\<close>

definition tf_stack :: "'a tensor list \<Rightarrow> error + 'a tensor" where
  "tf_stack ts =
     (case ts of
        [] \<Rightarrow> Inr \<lparr>shape = [0], data = []\<rparr>
      | t # rest \<Rightarrow>
          if list_all (\<lambda>u. shape u = shape t) rest
          then Inr \<lparr>shape = length ts # shape t, data = concat (map data ts)\<rparr>
          else Inl InvalidArgumentError)"

section \<open>The model and the script\<close>

datatype layer =
    Input "nat list"
  | QuantConv2D nat nat     \<comment> \<open>filters, kernel size; padding \<^verbatim>\<open>same\<close>, \<^verbatim>\<open>ste_sign\<close>, \<^verbatim>\<open>weight_clip\<close>\<close>
  | Activation string
  | MaxPooling2D nat
  | Flatten
  | QuantDense nat

definition create_binary_model :: "nat list \<Rightarrow> nat \<Rightarrow> layer list" where
  "create_binary_model input_shape num_classes =
     [Input input_shape,
      QuantConv2D 32 3, Activation ''relu'', MaxPooling2D 2,
      QuantConv2D 64 3, Activation ''relu'', MaxPooling2D 2,
      Flatten,
      QuantDense 128, Activation ''relu'',
      QuantDense num_classes, Activation ''softmax'']"

text \<open>
  Everything the script takes from outside: the lines of \<^verbatim>\<open>commands_list.txt\<close> (or the
  exception \<^verbatim>\<open>open\<close> raises), the dataset tree, and the library calls whose results the
  script does not determine. A library call that raises returns \<open>None\<close> or \<open>False\<close>.
\<close>

record ('a, 'c) env =
  commands_list_txt :: "error + string list"
  dataset :: filesystem
  train_test_split :: "string list \<Rightarrow> nat list \<Rightarrow>
                       (string list \<times> string list \<times> nat list \<times> nat list) option"
  read_file :: "string \<Rightarrow> string option"
  decode_wav :: "string \<Rightarrow> 'a wav option"
  rfft_bin :: "nat \<Rightarrow> 'a list \<Rightarrow> nat \<Rightarrow> 'c"
  complex_abs :: "'c \<Rightarrow> 'a"
  keras_accepts :: "layer list \<Rightarrow> bool"
  fit :: "layer list \<Rightarrow> 'a tensor \<times> nat list \<Rightarrow> 'a tensor \<times> nat list \<Rightarrow> bool"
  save :: "layer list \<Rightarrow> string \<Rightarrow> bool"

text \<open>The body of \<^verbatim>\<open>for path in paths\<close>, lines 75 to 84.\<close>

definition path_to_spectrogram :: "('a::zero, 'c) env \<Rightarrow> string \<Rightarrow> error + 'a tensor" where
  "path_to_spectrogram env path =
     (case read_file env path of
        None \<Rightarrow> Inl (LibraryError ReadFileCall)
      | Some audio_binary \<Rightarrow>
     (case decode_wav env audio_binary of
        None \<Rightarrow> Inl (LibraryError DecodeWavCall)
      | Some decoded \<Rightarrow>
     (case tf_squeeze_last decoded of
        Inl e \<Rightarrow> Inl e
      | Inr audio0 \<Rightarrow>
     (case pad_or_truncate audio0 of
        Inl e \<Rightarrow> Inl e
      | Inr audio \<Rightarrow>
          Inr (tf_expand_dims_last
                 (tf_abs (complex_abs env)
                    (tf_signal_stft (rfft_bin env) audio 255 128)))))))"

fun paths_loop :: "('a::zero, 'c) env \<Rightarrow> string list \<Rightarrow> 'a tensor list \<Rightarrow> error + 'a tensor list" where
  "paths_loop env [] spectrograms = Inr spectrograms"
| "paths_loop env (path # paths) spectrograms =
     (case path_to_spectrogram env path of
        Inl e \<Rightarrow> Inl e
      | Inr spectrogram \<Rightarrow> paths_loop env paths (spectrograms @ [spectrogram]))"

definition paths_to_spectrograms :: "('a::zero, 'c) env \<Rightarrow> string list \<Rightarrow> error + 'a tensor list" where
  "paths_to_spectrograms env paths = paths_loop env paths []"

text \<open>
  The script's top level, statement after statement. Its run is recorded as the stages it
  enters, in order, and how it ends. \<^verbatim>\<open>print\<close> calls and the seeding of the random
  generators are left out.
\<close>

datatype event =
    ReadCommands string
  | LoadAudioFiles
  | TrainTestSplit
  | PathsToSpectrograms "string list"
  | StackTensors
  | CreateBinaryModel "nat list" nat
  | CompileModel
  | FitModel
  | SaveModel string

datatype outcome = Raised error | Finished "layer list"

definition DATASET_PATH :: string where
  "DATASET_PATH = ''speech-commands/''"

text \<open>
  \<^verbatim>\<open>model.save(path)\<close>, the last statement: the stage is entered with the path the call
  is made with, and the run finishes when the call returns.
\<close>

definition model_save :: "('a, 'c) env \<Rightarrow> layer list \<Rightarrow> string \<Rightarrow> event list \<Rightarrow> event list \<times> outcome" where
  "model_save env model path trace =
     (let trace' = trace @ [SaveModel path] in
      if \<not> save env model path
      then (trace', Raised (LibraryError SaveCall))
      else (trace', Finished model))"

definition main :: "('a::zero, 'c) env \<Rightarrow> event list \<times> outcome" where
  "main env =
    (case commands_list_txt env of
       Inl e \<Rightarrow> ([ReadCommands ''commands_list.txt''], Raised e)
     | Inr commands \<Rightarrow>
    (let t1 = [ReadCommands ''commands_list.txt'', LoadAudioFiles] in
     case load_audio_files (dataset env) commands DATASET_PATH of
       Inl e \<Rightarrow> (t1, Raised e)
     | Inr (audio_paths, labels, out) \<Rightarrow>
     if length audio_paths = 0 then (t1, Raised NoSamplesValueError) else
    (let t2 = t1 @ [TrainTestSplit] in
     case train_test_split env audio_paths labels of
       None \<Rightarrow> (t2, Raised (LibraryError TrainTestSplitCall))
     | Some (train_paths, val_paths, train_labels, val_labels) \<Rightarrow>
    (let t3 = t2 @ [PathsToSpectrograms train_paths] in
     case paths_to_spectrograms env train_paths of
       Inl e \<Rightarrow> (t3, Raised e)
     | Inr train_spectrograms \<Rightarrow>
    (let t4 = t3 @ [PathsToSpectrograms val_paths] in
     case paths_to_spectrograms env val_paths of
       Inl e \<Rightarrow> (t4, Raised e)
     | Inr val_spectrograms \<Rightarrow>
    (let t5 = t4 @ [StackTensors] in
     case tf_stack train_spectrograms of
       Inl e \<Rightarrow> (t5, Raised e)
     | Inr train_tensor \<Rightarrow>
     case tf_stack val_spectrograms of
       Inl e \<Rightarrow> (t5, Raised e)
     | Inr val_tensor \<Rightarrow>
    (let input_shape = tl (shape train_tensor);
         num_classes = length commands;
         t6 = t5 @ [CreateBinaryModel input_shape num_classes];
         model = create_binary_model input_shape num_classes
     in
     if \<not> keras_accepts env model then (t6, Raised (LibraryError KerasModelCall)) else
    (let t7 = t6 @ [CompileModel, FitModel] in
     if \<not> fit env model (train_tensor, train_labels) (val_tensor, val_labels)
     then (t7, Raised (LibraryError FitCall)) else
     model_save env model ''binary_kws_model.h5'' t7))))))))"




section \<open>A small dataset to run the script on\<close>

text \<open>
  Three commands: \<^verbatim>\<open>up\<close> has no directory, the directory of \<^verbatim>\<open>no\<close> holds no \<^verbatim>\<open>.wav\<close> name,
  that of \<^verbatim>\<open>yes\<close> holds two. The stand-in for \<^verbatim>\<open>train_test_split\<close> sends the first sample to
  the training side and the rest to the validation side; every file decodes to three mono
  samples.
\<close>

definition example_commands :: "string list" where
  "example_commands = [''up'', ''no'', ''yes'']"

definition example_dataset :: filesystem where
  "example_dataset p =
     (if p = ''speech-commands/yes'' then Some (Dir [''a.wav'', ''notes.txt'', ''b.wav''])
      else if p = ''speech-commands/no'' then Some (Dir [''readme.md''])
      else None)"

definition example_env :: "(int, int) env" where
  "example_env =
     \<lparr>commands_list_txt = Inr example_commands,
      dataset = example_dataset,
      train_test_split = (\<lambda>ps ls. Some (take 1 ps, drop 1 ps, take 1 ls, drop 1 ls)),
      read_file = (\<lambda>path. Some path),
      decode_wav = (\<lambda>audio_binary. Some \<lparr>channels = 1, samples = [3, - 2, 5]\<rparr>),
      rfft_bin = (\<lambda>fft_length frame k. 0),
      complex_abs = (\<lambda>c. c),
      keras_accepts = (\<lambda>model. True),
      fit = (\<lambda>model train val. True),
      save = (\<lambda>model path. True)\<rparr>"

text \<open>A dataset whose only command directory is empty and cannot be read.\<close>

definition locked_dataset :: filesystem where
  "locked_dataset p = (if p = ''speech-commands/no'' then Some (UnreadableDir []) else None)"

definition empty_env :: "(int, int) env" where
  "empty_env = example_env\<lparr>dataset := (\<lambda>p. None)\<rparr>"

text \<open>What the three samples become, and the spectrogram of every file of the example.\<close>

definition example_audio :: "int list" where
  "example_audio = [3, - 2, 5] @ replicate 15997 0"

definition example_spectrogram :: "int tensor" where
  "example_spectrogram =
     tf_expand_dims_last (tf_abs (\<lambda>c. c) (tf_signal_stft (\<lambda>fft_length frame k. 0) example_audio 255 128))"

text \<open>
  The stages the example run is expected to enter, and the order of stages claimed for
  the pipeline: a split that comes after a conversion to spectrograms.
\<close>

definition example_trace :: "event list" where
  "example_trace =
     [ReadCommands ''commands_list.txt'', LoadAudioFiles, TrainTestSplit,
      PathsToSpectrograms [''speech-commands/yes/a.wav''],
      PathsToSpectrograms [''speech-commands/yes/b.wav''],
      StackTensors, CreateBinaryModel [124, 129, 1] 3, CompileModel, FitModel,
      SaveModel ''binary_kws_model.h5'']"



section \<open>Properties of the scan\<close>

lemma append_files_eq:
  "append_files command_path label files (audio_paths, labels) =
     (audio_paths @ map (os_path_join command_path) files,
      labels @ replicate (length files) label)"
  by (induction files arbitrary: audio_paths labels) (simp_all add: replicate_app_Cons_same)

lemma load_step_eq:
  "load_step fs dp (label, command) (audio_paths, labels, out) =
     (if os_listdir fs (os_path_join dp command) = Inl PermissionError
      then Inl PermissionError
      else Inr (audio_paths @ map fst (command_entries fs dp label command),
                labels @ map snd (command_entries fs dp label command),
                out @ command_warning fs dp command))"
  by (cases "fs (os_path_join dp command)")
     (auto simp: load_step_def os_path_exists_def os_path_isdir_def os_listdir_def
                 command_entries_def wav_files_of_def command_warning_def append_files_eq
                 Let_def comp_def map_replicate_const
           split: node.splits)

lemma load_loop_eq:
  "load_loop fs dp lcs (audio_paths, labels, out) =
     (if \<forall>lc\<in>set lcs. os_listdir fs (os_path_join dp (snd lc)) \<noteq> Inl PermissionError
      then Inr (audio_paths @ map fst (entries_of fs dp lcs),
                labels @ map snd (entries_of fs dp lcs),
                out @ warnings_of fs dp lcs)
      else Inl PermissionError)"
proof (induction lcs arbitrary: audio_paths labels out)
  case Nil
  show ?case by (simp add: entries_of_def warnings_of_def)
next
  case (Cons lc lcs)
  obtain label command where lc: "lc = (label, command)" by (cases lc)
  show ?case
  proof (cases "os_listdir fs (os_path_join dp command) = Inl PermissionError")
    case True
    then show ?thesis by (simp add: lc load_step_eq)
  next
    case False
    have split: "entries_of fs dp ((label, command) # lcs) =
                   command_entries fs dp label command @ entries_of fs dp lcs"
      "warnings_of fs dp ((label, command) # lcs) =
         command_warning fs dp command @ warnings_of fs dp lcs"
      by (simp_all add: entries_of_def warnings_of_def)
    show ?thesis
      using False by (simp add: lc load_step_eq Cons.IH split)
  qed
qed

lemma load_audio_files_eq:
  "load_audio_files fs commands dp =
     (if \<forall>command\<in>set commands. os_listdir fs (os_path_join dp command) \<noteq> Inl PermissionError
      then Inr (map fst (expected_pairs fs commands dp),
                map snd (expected_pairs fs commands dp),
                warnings_of fs dp (enumerate 0 commands))
      else Inl PermissionError)"
proof -
  have "(\<forall>lc\<in>set (enumerate 0 commands).
           os_listdir fs (os_path_join dp (snd lc)) \<noteq> Inl PermissionError) \<longleftrightarrow>
        (\<forall>command\<in>set commands. os_listdir fs (os_path_join dp command) \<noteq> Inl PermissionError)"
  proof -
    have "snd ` set (enumerate 0 commands) = set commands"
      by (metis map_snd_enumerate set_map)
    then show ?thesis by (metis (no_types, lifting) image_iff)
  qed
  then show ?thesis
    by (simp add: load_audio_files_def load_loop_eq expected_pairs_def entries_of_def)
qed

lemma load_audio_files_Inr:
  assumes "load_audio_files fs commands dp = Inr (audio_paths, labels, out)"
  shows "audio_paths = map fst (expected_pairs fs commands dp)"
    and "labels = map snd (expected_pairs fs commands dp)"
    and "out = warnings_of fs dp (enumerate 0 commands)"
  using assms by (auto simp: load_audio_files_eq split: if_splits)

lemma example_scan:
  "load_audio_files example_dataset example_commands ''speech-commands/'' =
     Inr ([''speech-commands/yes/a.wav'', ''speech-commands/yes/b.wav''], [2, 2],
          [WarnMissing ''up'', WarnEmpty ''no''])"
  by (simp add: load_audio_files_def load_step_def example_commands_def example_dataset_def
        os_path_join_def os_path_exists_def os_path_isdir_def os_listdir_def
        startswith_def endswith_def numeral_2_eq_2)

lemma endswith_iff: "endswith s suf \<longleftrightarrow> (\<exists>pre. s = pre @ suf)"
proof
  assume "endswith s suf"
  then have "s = take (length s - length suf) s @ suf"
    by (metis append_take_drop_id endswith_def)
  then show "\<exists>pre. s = pre @ suf" ..
next
  assume "\<exists>pre. s = pre @ suf"
  then show "endswith s suf" by (auto simp: endswith_def)
qed

lemma endswith_join: "endswith b suf \<Longrightarrow> endswith (os_path_join a b) suf"
  unfolding endswith_iff os_path_join_def
  by (metis append.assoc)

lemma filter_entries_of_enumerate:
  "filter (\<lambda>(p, l). l = i) (entries_of fs dp (enumerate k cs)) =
     (if k \<le> i \<and> i < k + length cs then command_entries fs dp i (cs ! (i - k)) else [])"
proof (induction cs arbitrary: k)
  case Nil
  show ?case by (auto simp: entries_of_def)
next
  case (Cons c cs)
  have own: "filter (\<lambda>(p, l). l = i) (command_entries fs dp k c) =
               (if i = k then command_entries fs dp k c else [])"
    by (auto simp: command_entries_def filter_empty_conv intro: filter_True)
  have step: "entries_of fs dp (enumerate k (c # cs)) =
                command_entries fs dp k c @ entries_of fs dp (enumerate (Suc k) cs)"
    by (simp add: entries_of_def)
  show ?case
    unfolding step filter_append own Cons.IH
    by (auto simp: Suc_diff_le nth_Cons')
qed

lemma set_entries_of_enumerate:
  "(p, l) \<in> set (entries_of fs dp (enumerate k cs)) \<longleftrightarrow>
     k \<le> l \<and> l < k + length cs \<and> (p, l) \<in> set (command_entries fs dp l (cs ! (l - k)))"
proof -
  have "(p, l) \<in> set (entries_of fs dp (enumerate k cs)) \<longleftrightarrow>
        (p, l) \<in> set (filter (\<lambda>(p, l'). l' = l) (entries_of fs dp (enumerate k cs)))"
    by simp
  then show ?thesis
    unfolding filter_entries_of_enumerate by simp
qed

lemma entries_of_skip:
  assumes "\<And>j c. (j, c) \<in> set lcs \<Longrightarrow> \<not> P (j, c) \<Longrightarrow> command_entries fs dp j c = []"
  shows "entries_of fs dp (filter P lcs) = entries_of fs dp lcs"
  using assms by (induction lcs) (auto simp: entries_of_def)

lemma warnings_of_member:
  "(j, c) \<in> set lcs \<Longrightarrow> w \<in> set (command_warning fs dp c) \<Longrightarrow> w \<in> set (warnings_of fs dp lcs)"
  by (force simp: warnings_of_def)


lemma expected_pairs_entries_of:
  "expected_pairs fs commands dp = entries_of fs dp (enumerate 0 commands)"
  by (simp add: expected_pairs_def entries_of_def)

lemma wav_files_of_endswith: "f \<in> set (wav_files_of fs cp) \<Longrightarrow> endswith f ''.wav''"
  by (auto simp: wav_files_of_def split: option.splits node.splits)

lemma command_entries_member:
  "(p, l) \<in> set (command_entries fs dp j c) \<Longrightarrow> l = j \<and> endswith p ''.wav''"
  by (auto simp: command_entries_def intro: endswith_join wav_files_of_endswith)


text \<open>
  Claim C2. \<^verbatim>\<open>load_audio_files(commands, dataset_path)\<close> returns two lists of equal length
  whose entries, position by position, are exactly the expected pairs: for every command
  at index \<open>i\<close> whose directory exists, one pair (joined path, \<open>i\<close>) for each name of that
  directory ending in \<^verbatim>\<open>.wav\<close>, and nothing else.
\<close>

theorem load_audio_files_pairs:
  assumes "load_audio_files fs commands dataset_path = Inr (audio_paths, labels, out)"
  shows "length audio_paths = length labels \<and>
         zip audio_paths labels = expected_pairs fs commands dataset_path"
  using load_audio_files_Inr [OF assms] by (simp add: zip_map_fst_snd)

theorem load_audio_files_pairs_witness:
  "load_audio_files example_dataset example_commands ''speech-commands/'' =
     Inr ([''speech-commands/yes/a.wav'', ''speech-commands/yes/b.wav''], [2, 2],
          [WarnMissing ''up'', WarnEmpty ''no''])
   \<and> length [''speech-commands/yes/a.wav'', ''speech-commands/yes/b.wav''] = length [2::nat, 2]
   \<and> zip [''speech-commands/yes/a.wav'', ''speech-commands/yes/b.wav''] [2::nat, 2] =
       expected_pairs example_dataset example_commands ''speech-commands/''"
proof -
  show ?thesis
    using load_audio_files_pairs [OF example_scan] example_scan by simp
qed

text \<open>
  Claim C8. For every list of commands and every dataset path, the two lists
  \<^verbatim>\<open>load_audio_files\<close> returns have equal length, every label is an index into
  \<^verbatim>\<open>commands\<close> (at least 0, below \<^verbatim>\<open>len(commands)\<close>), and every path ends with \<^verbatim>\<open>.wav\<close>.
\<close>

theorem load_audio_files_invariant:
  assumes "load_audio_files fs commands dataset_path = Inr (audio_paths, labels, out)"
  shows "length audio_paths = length labels \<and>
         (\<forall>label\<in>set labels. label < length commands) \<and>
         (\<forall>path\<in>set audio_paths. endswith path ''.wav'')"
proof -
  let ?E = "entries_of fs dataset_path (enumerate 0 commands)"
  have ps: "audio_paths = map fst ?E" and ls: "labels = map snd ?E"
    using load_audio_files_Inr [OF assms] by (simp_all add: expected_pairs_entries_of)
  have "label < length commands" if "label \<in> set labels" for label
  proof -
    from that obtain p where "(p, label) \<in> set ?E" by (auto simp: ls)
    then show ?thesis by (simp add: set_entries_of_enumerate)
  qed
  moreover have "endswith path ''.wav''" if "path \<in> set audio_paths" for path
  proof -
    from that obtain l where "(path, l) \<in> set ?E" by (auto simp: ps)
    then show ?thesis
      by (auto simp: set_entries_of_enumerate dest: command_entries_member)
  qed
  ultimately show ?thesis by (simp add: ps ls)
qed

theorem load_audio_files_invariant_witness:
  "length [''speech-commands/yes/a.wav'', ''speech-commands/yes/b.wav''] = length [2::nat, 2] \<and>
   list_all (\<lambda>label. label < length example_commands) [2, 2] \<and>
   list_all (\<lambda>path. endswith path ''.wav'')
     [''speech-commands/yes/a.wav'', ''speech-commands/yes/b.wav'']"
proof -
  show ?thesis
    using load_audio_files_invariant [OF example_scan] by (simp add: list_all_iff)
qed

text \<open>
  Claim C6, as stated, fails: a command directory that exists and holds no name at all,
  but cannot be read, makes \<^verbatim>\<open>os.listdir\<close> raise, and the scan ends with that
  \<^verbatim>\<open>PermissionError\<close> instead of a warning.
\<close>

theorem unreadable_empty_directory_counterexample:
  "os_path_exists locked_dataset (os_path_join ''speech-commands/'' ''no'') \<and>
   os_path_isdir locked_dataset (os_path_join ''speech-commands/'' ''no'') \<and>
   filter (\<lambda>f. endswith f ''.wav'')
     (directory_entries locked_dataset (os_path_join ''speech-commands/'' ''no'')) = [] \<and>
   load_audio_files locked_dataset [''no''] ''speech-commands/'' = Inl PermissionError"
  by (simp add: load_audio_files_def load_step_def locked_dataset_def directory_entries_def
        os_path_join_def os_path_exists_def os_path_isdir_def os_listdir_def
        startswith_def endswith_def)

text \<open>
  Claim C6, amended. When every command directory that exists can be listed, and the
  directory of the command at index \<open>i\<close> is missing, or is listed and holds no name ending
  in \<^verbatim>\<open>.wav\<close>, \<^verbatim>\<open>load_audio_files\<close> returns (no exception), its output holds the warning
  for that command (the \<^verbatim>\<open>non esiste\<close> one for a missing directory, the \<^verbatim>\<open>vuota\<close> one
  for an empty one), no returned label is \<open>i\<close>, and the returned pairs are those of the
  other commands, each scanned with its own index.
\<close>

theorem missing_or_empty_directory:
  assumes "i < length commands"
    and "\<not> os_path_isdir fs (os_path_join dataset_path (commands ! i)) \<or>
         (\<exists>names. os_listdir fs (os_path_join dataset_path (commands ! i)) = Inr names \<and>
                  filter (\<lambda>f. endswith f ''.wav'') names = [])"
    and "\<forall>command\<in>set commands.
           os_listdir fs (os_path_join dataset_path command) \<noteq> Inl PermissionError"
  shows "\<exists>audio_paths labels out.
           load_audio_files fs commands dataset_path = Inr (audio_paths, labels, out) \<and>
           (if os_path_isdir fs (os_path_join dataset_path (commands ! i))
            then WarnEmpty (commands ! i) else WarnMissing (commands ! i)) \<in> set out \<and>
           i \<notin> set labels \<and>
           zip audio_paths labels =
             entries_of fs dataset_path (filter (\<lambda>(j, c). j \<noteq> i) (enumerate 0 commands))"
proof -
  let ?cp = "os_path_join dataset_path (commands ! i)"
  let ?E = "entries_of fs dataset_path (enumerate 0 commands)"
  have none: "command_entries fs dataset_path i (commands ! i) = []"
    using assms(2)
    by (auto simp: command_entries_def wav_files_of_def os_path_isdir_def os_listdir_def
             split: option.splits node.splits)
  have warn: "(if os_path_isdir fs ?cp then WarnEmpty (commands ! i) else WarnMissing (commands ! i))
                \<in> set (command_warning fs dataset_path (commands ! i))"
    using assms(2)
    by (auto simp: command_warning_def os_path_isdir_def os_listdir_def
             split: option.splits node.splits)
  have mem: "(i, commands ! i) \<in> set (enumerate 0 commands)"
    using assms(1) by (simp add: in_set_enumerate_eq)
  have out: "(if os_path_isdir fs ?cp then WarnEmpty (commands ! i) else WarnMissing (commands ! i))
                \<in> set (warnings_of fs dataset_path (enumerate 0 commands))"
    by (rule warnings_of_member [OF mem warn])
  have no_label: "i \<notin> set (map snd ?E)"
  proof
    assume "i \<in> set (map snd ?E)"
    then obtain p where "(p, i) \<in> set ?E" by auto
    then show False using none by (simp add: set_entries_of_enumerate)
  qed
  have skip: "entries_of fs dataset_path (filter (\<lambda>(j, c). j \<noteq> i) (enumerate 0 commands)) = ?E"
    by (rule entries_of_skip) (use none in \<open>auto simp: in_set_enumerate_eq\<close>)
  have run: "load_audio_files fs commands dataset_path =
               Inr (map fst ?E, map snd ?E, warnings_of fs dataset_path (enumerate 0 commands))"
    using assms(3) by (simp add: load_audio_files_eq expected_pairs_entries_of)
  show ?thesis
    using out no_label by (simp add: run skip zip_map_fst_snd)
qed

theorem missing_or_empty_directory_witness:
  "\<exists>audio_paths labels out.
     load_audio_files example_dataset example_commands ''speech-commands/'' =
       Inr (audio_paths, labels, out) \<and>
     WarnEmpty ''no'' \<in> set out \<and> 1 \<notin> set labels \<and>
     zip audio_paths labels =
       [(''speech-commands/yes/a.wav'', 2), (''speech-commands/yes/b.wav'', 2)]"
proof -
  have i: "1 < length example_commands" by (simp add: example_commands_def)
  have dir: "os_path_isdir example_dataset (os_path_join ''speech-commands/'' (example_commands ! 1))"
    by (simp add: example_commands_def example_dataset_def os_path_isdir_def os_path_join_def
          startswith_def endswith_def)
  have empty: "\<exists>names. os_listdir example_dataset
                   (os_path_join ''speech-commands/'' (example_commands ! 1)) = Inr names \<and>
                 filter (\<lambda>f. endswith f ''.wav'') names = []"
    by (simp add: example_commands_def example_dataset_def os_listdir_def os_path_join_def
          startswith_def endswith_def)
  have listed: "\<forall>command\<in>set example_commands.
           os_listdir example_dataset (os_path_join ''speech-commands/'' command) \<noteq>
             Inl PermissionError"
    by (simp add: example_commands_def example_dataset_def os_listdir_def os_path_join_def
          startswith_def endswith_def)
  have rest: "entries_of example_dataset ''speech-commands/''
                (filter (\<lambda>(j, c). j \<noteq> 1) (enumerate 0 example_commands)) =
              [(''speech-commands/yes/a.wav'', 2), (''speech-commands/yes/b.wav'', 2)]"
    by (simp add: entries_of_def command_entries_def wav_files_of_def example_commands_def
          example_dataset_def os_path_join_def startswith_def endswith_def numeral_2_eq_2)
  have disj: "\<not> os_path_isdir example_dataset
                  (os_path_join ''speech-commands/'' (example_commands ! 1)) \<or>
              (\<exists>names. os_listdir example_dataset
                   (os_path_join ''speech-commands/'' (example_commands ! 1)) = Inr names \<and>
                 filter (\<lambda>f. endswith f ''.wav'') names = [])"
    using empty by (rule disjI2)
  show ?thesis
    using missing_or_empty_directory [OF i disj listed] dir rest
    by (simp add: example_commands_def)
qed

section \<open>Properties of the spectrograms\<close>

lemma pad_or_truncate_eq:
  "pad_or_truncate audio = Inr (take 16000 audio @ replicate (16000 - length audio) 0)"
proof -
  have "nat (16000 - int (min (length audio) 16000)) = 16000 - length audio"
    by linarith
  then show ?thesis
    by (simp add: pad_or_truncate_def tf_zeros_def)
qed

lemma pad_or_truncate_length:
  "pad_or_truncate audio = Inr audio' \<Longrightarrow> length audio' = 16000"
  by (auto simp: pad_or_truncate_eq)

lemma enclosing_power_of_two_255: "enclosing_power_of_two 255 = 256"
  by (simp add: enclosing_power_of_two_def)

lemma num_frames_one_second: "num_frames 16000 255 128 = 124"
  by (simp add: num_frames_def)

lemma stft_shape_general:
  "shape (tf_signal_stft bin signal frame_length frame_step) =
     [num_frames (length signal) frame_length frame_step,
      enclosing_power_of_two frame_length div 2 + 1]"
  by (simp add: tf_signal_stft_def tf_signal_frame_def Let_def)

lemma stft_shape:
  "length signal = 16000 \<Longrightarrow> shape (tf_signal_stft bin signal 255 128) = [124, 129]"
  by (simp only: stft_shape_general enclosing_power_of_two_255 num_frames_one_second) simp

lemma path_to_spectrogram_shape:
  assumes "path_to_spectrogram env path = Inr s"
  shows "shape s = [124, 129, 1]"
proof -
  from assms obtain audio0 audio where pad: "pad_or_truncate audio0 = Inr audio"
    and s: "s = tf_expand_dims_last
                  (tf_abs (complex_abs env) (tf_signal_stft (rfft_bin env) audio 255 128))"
    by (auto simp: path_to_spectrogram_def split: option.splits sum.splits)
  have "length audio = 16000"
    using pad by (rule pad_or_truncate_length)
  then have "shape (tf_signal_stft (rfft_bin env) audio 255 128) = [124, 129]"
    by (rule stft_shape)
  then show ?thesis
    by (simp add: s tf_expand_dims_last_def tf_abs_def)
qed

lemma paths_loop_shape:
  "paths_loop env paths acc = Inr spectrograms \<Longrightarrow>
   \<forall>s\<in>set acc. shape s = [124, 129, 1] \<Longrightarrow>
   \<forall>s\<in>set spectrograms. shape s = [124, 129, 1]"
proof (induction paths arbitrary: acc)
  case Nil
  then show ?case by simp
next
  case (Cons path paths)
  from Cons.prems(1) obtain s where s: "path_to_spectrogram env path = Inr s"
    and rest: "paths_loop env paths (acc @ [s]) = Inr spectrograms"
    by (auto split: sum.splits)
  have "\<forall>t\<in>set (acc @ [s]). shape t = [124, 129, 1]"
    using Cons.prems(2) path_to_spectrogram_shape [OF s] by simp
  with rest show ?case by (rule Cons.IH)
qed

lemma paths_loop_length:
  "paths_loop env paths acc = Inr spectrograms \<Longrightarrow>
   length spectrograms = length acc + length paths"
proof (induction paths arbitrary: acc)
  case Nil
  then show ?case by simp
next
  case (Cons path paths)
  from Cons.prems obtain s where
    rest: "paths_loop env paths (acc @ [s]) = Inr spectrograms"
    by (auto split: sum.splits)
  from Cons.IH [OF rest] show ?case by simp
qed

lemma example_path_to_spectrogram:
  "path_to_spectrogram example_env path = Inr example_spectrogram"
  by (simp add: path_to_spectrogram_def example_env_def tf_squeeze_last_def pad_or_truncate_eq
        example_spectrogram_def example_audio_def)

lemma example_paths_loop:
  "paths_loop example_env paths acc = Inr (acc @ replicate (length paths) example_spectrogram)"
  by (induction paths arbitrary: acc)
     (simp_all add: example_path_to_spectrogram replicate_app_Cons_same)

lemma example_paths_to_spectrograms:
  "paths_to_spectrograms example_env paths = Inr (replicate (length paths) example_spectrogram)"
  by (simp add: paths_to_spectrograms_def example_paths_loop)

text \<open>
  Claim C4. Every spectrogram \<^verbatim>\<open>paths_to_spectrograms\<close> returns has shape \<open>(124, 129, 1)\<close>,
  whatever the length of the file it comes from, and there is one per path:
  124 frames, which is \<open>1 + (16000 - 255) div 128\<close>; 129 bins, which is half the FFT
  length 256 (the power of two enclosing 255) plus one; and the channel dimension.
\<close>

theorem spectrogram_shape:
  assumes "paths_to_spectrograms env paths = Inr spectrograms"
  shows "(\<forall>s\<in>set spectrograms. shape s = [124, 129, 1]) \<and>
         length spectrograms = length paths \<and>
         num_frames 16000 255 128 = 1 + (16000 - 255) div 128 \<and>
         1 + (16000 - 255) div 128 = (124::nat) \<and>
         enclosing_power_of_two 255 div 2 + 1 = 129"
  using assms paths_loop_shape [of env paths "[]" spectrograms]
    paths_loop_length [of env paths "[]" spectrograms]
  by (simp add: paths_to_spectrograms_def enclosing_power_of_two_255 num_frames_one_second)

theorem spectrogram_shape_witness:
  "paths_to_spectrograms example_env [''short.wav'', ''long.wav''] =
     Inr [example_spectrogram, example_spectrogram] \<and>
   shape example_spectrogram = [124, 129, 1]"
proof -
  have run: "paths_to_spectrograms example_env [''short.wav'', ''long.wav''] =
               Inr [example_spectrogram, example_spectrogram]"
    by (simp add: example_paths_to_spectrograms numeral_2_eq_2)
  show ?thesis
    using spectrogram_shape [OF run] run by simp
qed

text \<open>
  Claim C9. A file that is read and decoded to one channel reaches the STFT as exactly
  16000 samples: its first 16000 when it is longer, itself followed by zeros when it is
  shorter, and itself unchanged when it has 16000; the spectrogram is computed from
  those samples.
\<close>

theorem one_second_of_audio:
  assumes "read_file env path = Some audio_binary"
    and "decode_wav env audio_binary = Some decoded"
    and "channels decoded = 1"
  shows "\<exists>audio.
           pad_or_truncate (samples decoded) = Inr audio \<and>
           path_to_spectrogram env path =
             Inr (tf_expand_dims_last
                    (tf_abs (complex_abs env) (tf_signal_stft (rfft_bin env) audio 255 128))) \<and>
           length audio = 16000 \<and>
           (16000 < length (samples decoded) \<longrightarrow> audio = take 16000 (samples decoded)) \<and>
           (length (samples decoded) < 16000 \<longrightarrow>
              audio = samples decoded @ replicate (16000 - length (samples decoded)) 0) \<and>
           (length (samples decoded) = 16000 \<longrightarrow> audio = samples decoded)"
  using assms
  by (simp add: path_to_spectrogram_def tf_squeeze_last_def pad_or_truncate_eq)

theorem one_second_of_audio_witness:
  "pad_or_truncate [3, - 2, 5 :: int] = Inr ([3, - 2, 5] @ replicate 15997 0) \<and>
   path_to_spectrogram example_env ''short.wav'' =
     Inr (tf_expand_dims_last
            (tf_abs (complex_abs example_env)
               (tf_signal_stft (rfft_bin example_env) ([3, - 2, 5] @ replicate 15997 0) 255 128))) \<and>
   length ([3, - 2, 5 :: int] @ replicate 15997 0) = 16000"
proof -
  have r: "read_file example_env ''short.wav'' = Some ''short.wav''"
    by (simp add: example_env_def)
  have d: "decode_wav example_env ''short.wav'' = Some \<lparr>channels = 1, samples = [3, - 2, 5]\<rparr>"
    by (simp add: example_env_def)
  have c: "channels \<lparr>channels = 1, samples = [3, - 2, 5 :: int]\<rparr> = 1"
    by simp
  from one_second_of_audio [OF r d c]
  show ?thesis by auto
qed

section \<open>Properties of the script\<close>

lemma paths_loop_error:
  "paths_loop env paths acc = Inl e \<Longrightarrow> e \<noteq> NoSamplesValueError"
proof (induction paths arbitrary: acc)
  case Nil
  then show ?case by simp
next
  case (Cons path paths)
  show ?case
  proof (cases "path_to_spectrogram env path")
    case (Inl e')
    with Cons.prems have "e' = e" by simp
    with Inl show ?thesis
      by (auto simp: path_to_spectrogram_def pad_or_truncate_eq tf_squeeze_last_def
               split: option.splits sum.splits if_splits)
  next
    case (Inr s)
    with Cons.prems have "paths_loop env paths (acc @ [s]) = Inl e" by simp
    then show ?thesis by (rule Cons.IH)
  qed
qed

lemma paths_to_spectrograms_error:
  "paths_to_spectrograms env paths = Inl e \<Longrightarrow> e \<noteq> NoSamplesValueError"
  unfolding paths_to_spectrograms_def by (rule paths_loop_error)

lemma tf_stack_error: "tf_stack ts = Inl e \<Longrightarrow> e \<noteq> NoSamplesValueError"
  by (auto simp: tf_stack_def split: list.splits if_splits)

lemma main_no_samples:
  assumes "commands_list_txt env = Inr commands"
    and "load_audio_files (dataset env) commands DATASET_PATH = Inr ([], labels, out)"
  shows "main env = ([ReadCommands ''commands_list.txt'', LoadAudioFiles], Raised NoSamplesValueError)"
  using assms by (simp add: main_def)

lemma main_some_samples:
  assumes "commands_list_txt env = Inr commands"
    and "load_audio_files (dataset env) commands DATASET_PATH = Inr (audio_paths, labels, out)"
    and "audio_paths \<noteq> []"
  shows "snd (main env) \<noteq> Raised NoSamplesValueError \<and> TrainTestSplit \<in> set (fst (main env))"
  using assms
  by (auto simp: main_def model_save_def Let_def
           dest: paths_to_spectrograms_error tf_stack_error
           split: option.splits sum.splits prod.splits)


lemma main_finished:
  assumes "snd (main env) = Finished model"
  shows "\<exists>commands audio_paths labels out train_paths val_paths train_labels val_labels input_shape.
           commands_list_txt env = Inr commands \<and>
           load_audio_files (dataset env) commands DATASET_PATH = Inr (audio_paths, labels, out) \<and>
           train_test_split env audio_paths labels =
             Some (train_paths, val_paths, train_labels, val_labels) \<and>
           fst (main env) =
             [ReadCommands ''commands_list.txt'', LoadAudioFiles, TrainTestSplit,
              PathsToSpectrograms train_paths, PathsToSpectrograms val_paths,
              StackTensors, CreateBinaryModel input_shape (length commands),
              CompileModel, FitModel, SaveModel ''binary_kws_model.h5''] \<and>
           model = create_binary_model input_shape (length commands)"
  using assms
  by (auto simp: main_def model_save_def Let_def
           split: option.splits sum.splits prod.splits if_splits)


lemma main_num_classes:
  assumes "commands_list_txt env = Inr commands"
    and "CreateBinaryModel input_shape num_classes \<in> set (fst (main env))"
  shows "num_classes = length commands"
  using assms
  by (auto simp: main_def model_save_def Let_def
           split: option.splits sum.splits prod.splits if_splits)

lemma example_stack:
  "tf_stack [example_spectrogram] =
     Inr \<lparr>shape = [1, 124, 129, 1], data = data example_spectrogram\<rparr>"
proof -
  have "shape example_spectrogram = [124, 129, 1]"
    using example_path_to_spectrogram [of "''p''"] by (rule path_to_spectrogram_shape)
  then show ?thesis by (simp add: tf_stack_def)
qed

lemma example_main:
  "main example_env = (example_trace, Finished (create_binary_model [124, 129, 1] 3))"
proof -
  have c: "commands_list_txt example_env = Inr example_commands"
    and d: "dataset example_env = example_dataset"
    and t: "train_test_split example_env
              [''speech-commands/yes/a.wav'', ''speech-commands/yes/b.wav''] [2, 2] =
            Some ([''speech-commands/yes/a.wav''], [''speech-commands/yes/b.wav''], [2], [2])"
    and k: "\<And>model. keras_accepts example_env model"
    and f: "\<And>model train val. fit example_env model train val"
    and s: "\<And>model path. save example_env model path"
    by (simp_all add: example_env_def)
  have l: "load_audio_files example_dataset example_commands DATASET_PATH =
     Inr ([''speech-commands/yes/a.wav'', ''speech-commands/yes/b.wav''], [2, 2],
          [WarnMissing ''up'', WarnEmpty ''no''])"
    unfolding DATASET_PATH_def by (rule example_scan)
  have p: "\<And>path. paths_to_spectrograms example_env [path] = Inr [example_spectrogram]"
    by (simp add: example_paths_to_spectrograms)
  have n: "length example_commands = 3"
    by (simp add: example_commands_def)
  show ?thesis
    by (simp add: main_def model_save_def Let_def c d l t p example_stack k f s n
          example_trace_def)
qed

lemma empty_scan:
  "load_audio_files (\<lambda>p. None) example_commands DATASET_PATH =
     Inr ([], [], [WarnMissing ''up'', WarnMissing ''no'', WarnMissing ''yes''])"
  by (simp add: load_audio_files_def load_step_def example_commands_def
        os_path_exists_def os_path_isdir_def)

text \<open>
  Claim C1. When \<^verbatim>\<open>load_audio_files\<close> returns no audio path, the script ends with the
  \<^verbatim>\<open>ValueError\<close> of line 57 having entered no stage after the scan (no split, no
  training, no saving); when it returns at least one, the script does not end with that
  error and goes on to the split.
\<close>

theorem no_samples_is_fatal:
  assumes "commands_list_txt env = Inr commands"
    and "load_audio_files (dataset env) commands DATASET_PATH = Inr (audio_paths, labels, out)"
  shows "(audio_paths = [] \<longrightarrow>
            main env = ([ReadCommands ''commands_list.txt'', LoadAudioFiles],
                        Raised NoSamplesValueError)) \<and>
         (audio_paths \<noteq> [] \<longrightarrow>
            snd (main env) \<noteq> Raised NoSamplesValueError \<and>
            TrainTestSplit \<in> set (fst (main env)))"
  using main_no_samples [OF assms(1)] main_some_samples [OF assms] assms(2) by blast

theorem no_samples_is_fatal_witness:
  "main empty_env = ([ReadCommands ''commands_list.txt'', LoadAudioFiles],
                     Raised NoSamplesValueError) \<and>
   snd (main example_env) \<noteq> Raised NoSamplesValueError \<and>
   TrainTestSplit \<in> set (fst (main example_env))"
proof -
  have c0: "commands_list_txt empty_env = Inr example_commands"
    and d0: "dataset empty_env = (\<lambda>p. None)"
    by (simp_all add: empty_env_def example_env_def)
  have l0: "load_audio_files (dataset empty_env) example_commands DATASET_PATH =
              Inr ([], [], [WarnMissing ''up'', WarnMissing ''no'', WarnMissing ''yes''])"
    unfolding d0 by (rule empty_scan)
  have c1: "commands_list_txt example_env = Inr example_commands"
    and d1: "dataset example_env = example_dataset"
    by (simp_all add: example_env_def)
  have l1: "load_audio_files (dataset example_env) example_commands DATASET_PATH =
     Inr ([''speech-commands/yes/a.wav'', ''speech-commands/yes/b.wav''], [2, 2],
          [WarnMissing ''up'', WarnEmpty ''no''])"
    unfolding d1 DATASET_PATH_def by (rule example_scan)
  show ?thesis
    using no_samples_is_fatal [OF c0 l0] no_samples_is_fatal [OF c1 l1] by simp
qed






text \<open>
  Claim C10. The entries labelled \<open>i\<close> are exactly those of the directory of the command
  at position \<open>i\<close>, whatever the directories of the other commands hold (labels are not
  compacted when an earlier command is missing or empty); and the model is built with
  \<^verbatim>\<open>num_classes = len(commands)\<close>, whether or not every label occurs.
\<close>

theorem label_is_position:
  assumes "commands_list_txt env = Inr commands"
    and "load_audio_files (dataset env) commands DATASET_PATH = Inr (audio_paths, labels, out)"
    and "i < length commands"
  shows "filter (\<lambda>(path, label). label = i) (zip audio_paths labels) =
           command_entries (dataset env) DATASET_PATH i (commands ! i) \<and>
         (\<forall>input_shape num_classes.
            CreateBinaryModel input_shape num_classes \<in> set (fst (main env)) \<longrightarrow>
            num_classes = length commands) \<and>
         (\<forall>model. snd (main env) = Finished model \<longrightarrow>
            (\<exists>input_shape. model = create_binary_model input_shape (length commands)))"
proof -
  have "zip audio_paths labels = entries_of (dataset env) DATASET_PATH (enumerate 0 commands)"
    using load_audio_files_Inr [OF assms(2)] by (simp add: expected_pairs_entries_of zip_map_fst_snd)
  then have "filter (\<lambda>(path, label). label = i) (zip audio_paths labels) =
               command_entries (dataset env) DATASET_PATH i (commands ! i)"
    using assms(3) by (simp add: filter_entries_of_enumerate)
  moreover have "num_classes = length commands"
    if "CreateBinaryModel input_shape num_classes \<in> set (fst (main env))"
    for input_shape num_classes
    using assms(1) that by (rule main_num_classes)
  moreover have "\<exists>input_shape. model = create_binary_model input_shape (length commands)"
    if "snd (main env) = Finished model" for model
    using main_finished [OF that] assms(1) by auto
  ultimately show ?thesis by blast
qed

theorem label_is_position_witness:
  "filter (\<lambda>(path, label). label = 2)
     (zip [''speech-commands/yes/a.wav'', ''speech-commands/yes/b.wav''] [2, 2]) =
     command_entries example_dataset DATASET_PATH 2 ''yes'' \<and>
   CreateBinaryModel [124, 129, 1] 3 \<in> set (fst (main example_env)) \<and>
   3 = length example_commands \<and>
   snd (main example_env) = Finished (create_binary_model [124, 129, 1] (length example_commands))"
proof -
  have c1: "commands_list_txt example_env = Inr example_commands"
    and d1: "dataset example_env = example_dataset"
    by (simp_all add: example_env_def)
  have l1: "load_audio_files (dataset example_env) example_commands DATASET_PATH =
     Inr ([''speech-commands/yes/a.wav'', ''speech-commands/yes/b.wav''], [2, 2],
          [WarnMissing ''up'', WarnEmpty ''no''])"
    unfolding d1 DATASET_PATH_def by (rule example_scan)
  have i: "2 < length example_commands" and y: "example_commands ! 2 = ''yes''"
    and n: "length example_commands = 3"
    by (simp_all add: example_commands_def)
  have m: "CreateBinaryModel [124, 129, 1] 3 \<in> set (fst (main example_env))"
    by (simp add: example_main example_trace_def)
  have f: "snd (main example_env) =
             Finished (create_binary_model [124, 129, 1] (length example_commands))"
    by (simp only: example_main n snd_conv)
  have "filter (\<lambda>(path, label). label = 2)
          (zip [''speech-commands/yes/a.wav'', ''speech-commands/yes/b.wav''] [2, 2]) =
        command_entries (dataset example_env) DATASET_PATH 2 (example_commands ! 2)"
    using label_is_position [OF c1 l1 i] by (rule conjunct1)
  then have "filter (\<lambda>(path, label). label = 2)
          (zip [''speech-commands/yes/a.wav'', ''speech-commands/yes/b.wav''] [2, 2]) =
        command_entries example_dataset DATASET_PATH 2 ''yes''"
    by (simp only: d1 y)
  with m n f show ?thesis by (simp only: simp_thms)
qed

end
